theory Spec2Isabelle
  imports Complex_Main
begin

section \<open>Python string primitives\<close>

text \<open>
  A skill string is a list of characters. The character classes and the case mapping
  below are those of Python's \<open>str\<close> on ASCII text: the white space of \<open>str.strip\<close>
  and of the regular expression class \<open>\s\<close> (tab, line feed, vertical tab, form feed,
  carriage return, the four separators 0x1C to 0x1F and the blank) and the word
  characters of \<open>\w\<close> (letters, digits, underscore). A character outside ASCII is left
  unchanged by the case mapping and belongs to no class; Python's Unicode tables for
  such characters are not part of the model of the skill normalizer.
\<close>

definition isspace :: "char \<Rightarrow> bool" where
  "isspace c = (c \<in> set [CHR 0x09, CHR 0x0A, CHR 0x0B, CHR 0x0C, CHR 0x0D,
                          CHR 0x1C, CHR 0x1D, CHR 0x1E, CHR 0x1F, CHR '' ''])"

definition ascii_upper :: string where
  "ascii_upper = ''ABCDEFGHIJKLMNOPQRSTUVWXYZ''"

definition ascii_lower :: string where
  "ascii_lower = ''abcdefghijklmnopqrstuvwxyz''"

definition ascii_digits :: string where
  "ascii_digits = ''0123456789''"

definition isalpha_char :: "char \<Rightarrow> bool" where
  "isalpha_char c = (c \<in> set ascii_upper \<or> c \<in> set ascii_lower)"

definition isword :: "char \<Rightarrow> bool" where
  "isword c = (isalpha_char c \<or> c \<in> set ascii_digits \<or> c = CHR ''_'')"

definition lower_char :: "char \<Rightarrow> char" where
  "lower_char c = (case map_of (zip ascii_upper ascii_lower) c of Some d \<Rightarrow> d | None \<Rightarrow> c)"

text \<open>\<open>str.lower\<close>.\<close>

definition lower :: "string \<Rightarrow> string" where
  "lower s = map lower_char s"

text \<open>\<open>str.strip()\<close>: white space is removed at both ends.\<close>

definition strip :: "string \<Rightarrow> string" where
  "strip s = rev (dropWhile isspace (rev (dropWhile isspace s)))"

text \<open>\<open>sep.join(xs)\<close>.\<close>

fun join :: "string \<Rightarrow> string list \<Rightarrow> string" where
  "join sep [] = []"
| "join sep [x] = x"
| "join sep (x # y # ys) = x @ sep @ join sep (y # ys)"

section \<open>Skill normalizer (utils/skill_processor.py)\<close>

text \<open>The table \<open>SkillProcessor.skill_synonyms\<close>, in the order of the source.\<close>

definition skill_synonyms :: "(string \<times> string) list" where
  "skill_synonyms =
    [(''js'', ''javascript''),
     (''ts'', ''typescript''),
     (''py'', ''python''),
     (''ml'', ''machine learning''),
     (''ai'', ''artificial intelligence''),
     (''dl'', ''deep learning''),
     (''nlp'', ''natural language processing''),
     (''cv'', ''computer vision''),
     (''db'', ''database''),
     (''sql'', ''structured query language''),
     (''nosql'', ''non-relational database''),
     (''aws'', ''amazon web services''),
     (''gcp'', ''google cloud platform''),
     (''k8s'', ''kubernetes''),
     (''ci/cd'', ''continuous integration continuous deployment''),
     (''rest'', ''restful api''),
     (''api'', ''application programming interface'')]"

text \<open>
  \<open>re.sub(r'[^\w\s+#/-]', '', skill)\<close>: a character is kept when it is a word
  character, white space, or one of \<open>+ # / -\<close>.
\<close>

definition kept_char :: "char \<Rightarrow> bool" where
  "kept_char c = (isword c \<or> isspace c \<or> c \<in> set ''+#/-'')"

definition remove_special :: "string \<Rightarrow> string" where
  "remove_special s = filter kept_char s"

text \<open>\<open>re.sub(r'\s+', ' ', skill)\<close>: every maximal run of white space becomes one blank.\<close>

function collapse_spaces :: "string \<Rightarrow> string" where
  "collapse_spaces [] = []"
| "collapse_spaces (c # cs) =
     (if isspace c then CHR '' '' # collapse_spaces (dropWhile isspace cs)
      else c # collapse_spaces cs)"
  by pat_completeness auto
termination
  by (relation "measure length") (auto simp: length_dropWhile_le less_Suc_eq_le)

text \<open>\<open>SkillProcessor.normalize_skill\<close>.\<close>

definition normalize_skill :: "string \<Rightarrow> string" where
  "normalize_skill skill =
     (let skill1 = strip (lower skill);
          skill2 = remove_special skill1;
          skill3 = collapse_spaces skill2
      in case map_of skill_synonyms skill3 of
           Some canonical \<Rightarrow> canonical
         | None \<Rightarrow> skill3)"

text \<open>
  The loop of \<open>SkillProcessor.normalize_skills\<close> over the normalized strings, with the
  set \<open>seen\<close> and the list \<open>result\<close> it updates.
\<close>

fun normalize_loop :: "string list \<Rightarrow> string set \<Rightarrow> string list \<Rightarrow> string list" where
  "normalize_loop [] seen result = result"
| "normalize_loop (skill # rest) seen result =
     (if skill \<noteq> [] \<and> skill \<notin> seen
      then normalize_loop rest (insert skill seen) (result @ [skill])
      else normalize_loop rest seen result)"

definition normalize_skills :: "string list \<Rightarrow> string list" where
  "normalize_skills skills = normalize_loop (map normalize_skill skills) {} []"

text \<open>\<open>SkillProcessor.skills_to_text\<close>.\<close>

definition skills_to_text :: "string list \<Rightarrow> string" where
  "skills_to_text skills = join '' '' (normalize_skills skills)"

section \<open>Errors\<close>

text \<open>
  The exceptions the modelled code can raise: the division by zero of Python's \<open>/\<close>,
  and the \<open>HTTPException\<close> of the endpoints with its status code and detail.
\<close>

datatype error = ZeroDivisionError | HTTPException nat string

definition truediv :: "real \<Rightarrow> real \<Rightarrow> error + real" where
  "truediv a b = (if b = 0 then Inl ZeroDivisionError else Inr (a / b))"

text \<open>
  \<open>round(x, 2)\<close>: the nearest multiple of one hundredth, a tie going to the even one.
  Python's floats are modelled by the real numbers: sums, products and quotients are
  exact here, where a float result can differ from the exact one in its last place.
  So where the exact value is a tie, or within such a difference of one, the code can
  round to the other neighbour (at similarity 0.00075 and no matched skill the code
  gives 0.01 and the exact arithmetic 0.02).
\<close>

definition round_half_even :: "real \<Rightarrow> int" where
  "round_half_even y =
     (let f = \<lfloor>y\<rfloor>; d = y - of_int f
      in if d < 1 / 2 then f
         else if 1 / 2 < d then f + 1
         else if even f then f else f + 1)"

definition round2 :: "real \<Rightarrow> real" where
  "round2 x = of_int (round_half_even (x * 100)) / 100"

section \<open>Gap analyzer (utils/skill_matcher.py)\<close>

text \<open>
  \<open>SkillMatcher.calculate_similarity\<close>. The vectorizer and the cosine similarity are
  scikit-learn's; they enter as the parameter \<open>tfidf_cosine\<close>, which gives the similarity
  of the two texts, or \<open>None\<close> when \<open>fit_transform\<close> or \<open>cosine_similarity\<close> raises
  (the \<open>except Exception\<close> branch).
\<close>

definition calculate_similarity ::
  "(string \<Rightarrow> string \<Rightarrow> real option) \<Rightarrow> string list \<Rightarrow> string list \<Rightarrow> real" where
  "calculate_similarity tfidf_cosine resume_skills job_skills =
     (let resume_text = skills_to_text resume_skills;
          job_text = skills_to_text job_skills
      in if resume_text = [] \<or> job_text = [] then 0
         else (case tfidf_cosine resume_text job_text of
                 Some similarity \<Rightarrow> similarity
               | None \<Rightarrow> 0))"

text \<open>
  The dictionary returned by \<open>analyze_skill_gap\<close>. The source builds each skill list
  with \<open>list(...)\<close> from a Python set, whose iteration order is not specified: such a
  list is modelled by the set of its elements, and its \<open>len\<close> by \<open>card\<close>.
\<close>

record skill_gap_result =
  matching_required :: "string set"
  matching_preferred :: "string set"
  missing_required :: "string set"
  missing_preferred :: "string set"
  additional_skills :: "string set"
  similarity_score :: real
  job_fit_score :: real
  required_match_percentage :: real
  total_skills_matched :: nat

text \<open>\<open>SkillMatcher._calculate_job_fit_score\<close>.\<close>

definition calculate_job_fit_score ::
  "string set \<Rightarrow> string list \<Rightarrow> string set \<Rightarrow> string list \<Rightarrow> real \<Rightarrow> error + real" where
  "calculate_job_fit_score matching_req required_skills matching_pref preferred_skills
       similarity =
     (case (if required_skills \<noteq> []
            then (case truediv (real (card matching_req)) (real (length required_skills)) of
                    Inl e \<Rightarrow> Inl e
                  | Inr required_match_ratio \<Rightarrow> Inr (required_match_ratio * 60))
            else Inr 0) of
        Inl e \<Rightarrow> Inl e
      | Inr required_score \<Rightarrow>
          (case (if preferred_skills \<noteq> []
                 then (case truediv (real (card matching_pref))
                               (real (length preferred_skills)) of
                         Inl e \<Rightarrow> Inl e
                       | Inr preferred_match_ratio \<Rightarrow> Inr (preferred_match_ratio * 20))
                 else Inr 0) of
             Inl e \<Rightarrow> Inl e
           | Inr preferred_score \<Rightarrow>
               (let similarity_component = similarity * 20;
                    total_score = required_score + preferred_score + similarity_component
                in Inr (round2 total_score))))"

text \<open>
  \<open>SkillMatcher.analyze_skill_gap\<close>; \<open>preferred_skills\<close> is optional and defaults to
  the empty list.
\<close>

definition analyze_skill_gap ::
  "(string \<Rightarrow> string \<Rightarrow> real option) \<Rightarrow> string list \<Rightarrow> string list \<Rightarrow> string list option
     \<Rightarrow> error + skill_gap_result" where
  "analyze_skill_gap tfidf_cosine resume_skills required_skills preferred_opt =
     (let preferred_skills = (case preferred_opt of None \<Rightarrow> [] | Some ps \<Rightarrow> ps);
          resume_skills_norm = normalize_skills resume_skills;
          required_skills_norm = normalize_skills required_skills;
          preferred_skills_norm = normalize_skills preferred_skills;
          resume_set = set resume_skills_norm;
          required_set = set required_skills_norm;
          preferred_set = set preferred_skills_norm;
          matching_req = resume_set \<inter> required_set;
          matching_pref = resume_set \<inter> preferred_set;
          missing_req = required_set - resume_set;
          missing_pref = preferred_set - resume_set;
          additional = resume_set - required_set - preferred_set;
          similarity = calculate_similarity tfidf_cosine resume_skills required_skills
      in case calculate_job_fit_score matching_req required_skills_norm
                matching_pref preferred_skills_norm similarity of
           Inl e \<Rightarrow> Inl e
         | Inr fit \<Rightarrow>
             (case (if required_skills_norm \<noteq> []
                    then (case truediv (real (card matching_req))
                                  (real (length required_skills_norm)) of
                            Inl e \<Rightarrow> Inl e
                          | Inr ratio \<Rightarrow> Inr (ratio * 100))
                    else Inr 0) of
                Inl e \<Rightarrow> Inl e
              | Inr percentage \<Rightarrow>
                  Inr \<lparr> matching_required = matching_req,
                        matching_preferred = matching_pref,
                        missing_required = missing_req,
                        missing_preferred = missing_pref,
                        additional_skills = additional,
                        similarity_score = similarity,
                        job_fit_score = fit,
                        required_match_percentage = percentage,
                        total_skills_matched = card matching_req + card matching_pref \<rparr>))"

text \<open>
  Stand-ins for the vectorizer in concrete runs: one that returns the same similarity
  for every pair of texts, and one that always raises.
\<close>

definition fixed_cosine :: "real \<Rightarrow> string \<Rightarrow> string \<Rightarrow> real option" where
  "fixed_cosine s a b = Some s"

definition failing_cosine :: "string \<Rightarrow> string \<Rightarrow> real option" where
  "failing_cosine a b = None"

text \<open>
  The share of the normalized skills of a job that the normalized resume skills hold,
  and zero when the job names none: the ratio that \<open>_calculate_job_fit_score\<close> weighs
  with 60 and 20 and that \<open>required_match_percentage\<close> shows as a percentage.
\<close>

definition match_ratio :: "string list \<Rightarrow> string list \<Rightarrow> real" where
  "match_ratio resume job =
     (if normalize_skills job = [] then 0
      else real (card (set (normalize_skills resume) \<inter> set (normalize_skills job)))
             / real (length (normalize_skills job)))"

section \<open>Recommendation generator (utils/skill_matcher.py)\<close>

text \<open>\<open>SkillMatcher.generate_recommendations\<close>; \<open>xs[:n]\<close> is \<open>take n xs\<close>.\<close>

definition generate_recommendations :: "string list \<Rightarrow> string list \<Rightarrow> real \<Rightarrow> string list" where
  "generate_recommendations missing_req missing_pref fit =
     (let recommendations = [];
          recommendations = recommendations @
            [if 80 \<le> fit then ''[EXCELLENT] You meet most requirements.''
             else if 60 \<le> fit then ''[GOOD] Consider strengthening a few areas.''
             else if 40 \<le> fit then ''[MODERATE] Significant skill gaps to address.''
             else ''[LOW] Major skill development needed.''];
          recommendations =
            (if missing_req \<noteq> []
             then recommendations @
               [''[PRIORITY] Learn these required skills - '' @ join '', '' (take 5 missing_req)]
             else recommendations);
          recommendations =
            (if missing_pref \<noteq> [] \<and> fit < 90
             then recommendations @
               [''[BONUS] Consider learning - '' @ join '', '' (take 3 missing_pref)]
             else recommendations);
          recommendations = recommendations @
            (if fit < 50
             then [''[ADVICE] Take online courses or certifications in missing skills'',
                   ''[ADVICE] Consider entry-level or junior positions to build experience'']
             else if fit < 70
             then [''[ADVICE] Build projects showcasing the missing skills'',
                   ''[ADVICE] Network with professionals in this field'']
             else [''[ADVICE] Highlight your matching skills prominently in your resume'',
                   ''[ADVICE] Prepare to discuss your relevant experience in interviews''])
      in recommendations)"

text \<open>The four headlines of the score bands.\<close>

definition headlines :: "string list" where
  "headlines =
     [''[EXCELLENT] You meet most requirements.'',
      ''[GOOD] Consider strengthening a few areas.'',
      ''[MODERATE] Significant skill gaps to address.'',
      ''[LOW] Major skill development needed.'']"

section \<open>Batch ranker (backend/main.py)\<close>

text \<open>The request models of backend/models.py.\<close>

record resume_skills_model =
  skills :: "string list"
  experience_years :: "real option"
  education_level :: "string option"
  job_titles :: "string list option"

record job_requirement =
  job_title :: string
  required_skills :: "string list"
  preferred_skills :: "string list option"
  min_experience :: "real option"
  education_required :: "string option"

text \<open>One dictionary of \<open>results\<close>, and the dictionary the endpoint returns.\<close>

record batch_row =
  row_job_title :: string
  fit_score :: real
  row_similarity_score :: real
  row_required_match_percentage :: real
  skills_matched :: nat
  missing_required_count :: nat

record batch_response =
  status :: string
  total_jobs_analyzed :: nat
  results :: "batch_row list"

text \<open>
  \<open>list.sort(key=..., reverse=True)\<close>: Python's sort is stable, and with
  \<open>reverse=True\<close> elements of equal key keep their original order. It is modelled by
  insertion from the right: an element goes behind the elements of greater key and
  before those of equal or smaller key, all of which followed it in the input.
\<close>

fun insort_reverse :: "('a \<Rightarrow> real) \<Rightarrow> 'a \<Rightarrow> 'a list \<Rightarrow> 'a list" where
  "insort_reverse key x [] = [x]"
| "insort_reverse key x (y # ys) =
     (if key y \<le> key x then x # y # ys else y # insort_reverse key x ys)"

definition sort_reverse :: "('a \<Rightarrow> real) \<Rightarrow> 'a list \<Rightarrow> 'a list" where
  "sort_reverse key xs = foldr (insort_reverse key) xs []"

text \<open>\<open>str(e)\<close> of the exceptions.\<close>

fun error_message :: "error \<Rightarrow> string" where
  "error_message ZeroDivisionError = ''division by zero''"
| "error_message (HTTPException code detail) = detail"

text \<open>
  The body of the loop of \<open>batch_match_resume\<close>: the analysis of one job and the
  dictionary made of it. \<open>job_req.preferred_skills or []\<close> is the empty list for
  \<open>None\<close>.
\<close>

definition batch_row_of ::
  "(string \<Rightarrow> string \<Rightarrow> real option) \<Rightarrow> string list \<Rightarrow> job_requirement
     \<Rightarrow> error + batch_row" where
  "batch_row_of tfidf_cosine resume job_req =
     (case analyze_skill_gap tfidf_cosine resume (required_skills job_req)
             (Some (case preferred_skills job_req of None \<Rightarrow> [] | Some ps \<Rightarrow> ps)) of
        Inl e \<Rightarrow> Inl e
      | Inr analysis_result \<Rightarrow>
          Inr \<lparr> row_job_title = job_title job_req,
                fit_score = job_fit_score analysis_result,
                row_similarity_score = similarity_score analysis_result,
                row_required_match_percentage = required_match_percentage analysis_result,
                skills_matched = total_skills_matched analysis_result,
                missing_required_count = card (missing_required analysis_result) \<rparr>)"

text \<open>
  The loop over the job requirements; \<open>rows\<close> is the list \<open>results\<close> it appends to.
\<close>

fun batch_loop ::
  "(string \<Rightarrow> string \<Rightarrow> real option) \<Rightarrow> string list \<Rightarrow> job_requirement list
     \<Rightarrow> batch_row list \<Rightarrow> error + batch_row list" where
  "batch_loop tfidf_cosine resume [] rows = Inr rows"
| "batch_loop tfidf_cosine resume (job_req # rest) rows =
     (case batch_row_of tfidf_cosine resume job_req of
        Inl e \<Rightarrow> Inl e
      | Inr row \<Rightarrow> batch_loop tfidf_cosine resume rest (rows @ [row]))"

text \<open>
  \<open>batch_match_resume\<close>: the two guards raise a 400; an \<open>HTTPException\<close> passes
  through the handler and any other exception becomes a 500.
\<close>

definition batch_match_resume ::
  "(string \<Rightarrow> string \<Rightarrow> real option) \<Rightarrow> resume_skills_model \<Rightarrow> job_requirement list
     \<Rightarrow> error + batch_response" where
  "batch_match_resume tfidf_cosine resume job_requirements =
     (if skills resume = [] then Inl (HTTPException 400 ''Resume skills cannot be empty'')
      else if job_requirements = []
      then Inl (HTTPException 400 ''Job requirements list cannot be empty'')
      else (case batch_loop tfidf_cosine (skills resume) job_requirements [] of
              Inl (HTTPException code detail) \<Rightarrow> Inl (HTTPException code detail)
            | Inl e \<Rightarrow> Inl (HTTPException 500 (''Internal server error: '' @ error_message e))
            | Inr rows \<Rightarrow>
                (let sorted_rows = sort_reverse fit_score rows
                 in Inr \<lparr> status = ''success'',
                          total_jobs_analyzed = length sorted_rows,
                          results = sorted_rows \<rparr>)))"

section \<open>Text extractor (utils/resume_parser.py)\<close>

subsection \<open>Candidate name\<close>

text \<open>
  The resume text is a Python \<open>str\<close>: a list of Unicode code points, here natural
  numbers. \<open>codepoints\<close> gives the code points of an ASCII literal.
\<close>

type_synonym unicode = "nat list"

definition codepoints :: "string \<Rightarrow> unicode" where
  "codepoints s = map of_char s"

definition newline :: char where
  "newline = CHR 0x0A"

text \<open>
  The white space of \<open>str.strip()\<close> and \<open>str.split()\<close>, for every code point: the
  characters for which \<open>str.isspace\<close> holds.
\<close>

definition unicode_isspace :: "nat \<Rightarrow> bool" where
  "unicode_isspace c =
     ((9 \<le> c \<and> c \<le> 13) \<or> (28 \<le> c \<and> c \<le> 32) \<or> c = 133 \<or> c = 160 \<or> c = 5760
      \<or> (8192 \<le> c \<and> c \<le> 8202) \<or> c = 8232 \<or> c = 8233 \<or> c = 8239 \<or> c = 8287
      \<or> c = 12288)"

text \<open>
  The letters of \<open>str.isalpha\<close> and the mapping \<open>str.upper\<close> come from the Unicode
  database of the Python runtime. They enter as a record of two functions: whether a
  code point is alphabetic, and the upper case of a string (which can be longer than
  the string).
\<close>

record unicode_tables =
  alphabetic :: "nat \<Rightarrow> bool"
  uppercase :: "unicode \<Rightarrow> unicode"

text \<open>
  The two tables as Python has them for the code points below 256; code points from
  256 on are in no class and unchanged, so these tables stand for Python's on text
  within that range.
\<close>

definition latin1_alphabetic :: "nat \<Rightarrow> bool" where
  "latin1_alphabetic c =
     ((65 \<le> c \<and> c \<le> 90) \<or> (97 \<le> c \<and> c \<le> 122) \<or> c = 170 \<or> c = 181 \<or> c = 186
      \<or> (192 \<le> c \<and> c \<le> 214) \<or> (216 \<le> c \<and> c \<le> 246) \<or> (248 \<le> c \<and> c \<le> 255))"

definition latin1_upper_char :: "nat \<Rightarrow> unicode" where
  "latin1_upper_char c =
     (if (97 \<le> c \<and> c \<le> 122) \<or> (224 \<le> c \<and> c \<le> 246) \<or> (248 \<le> c \<and> c \<le> 254)
      then [c - 32]
      else if c = 181 then [924]
      else if c = 223 then [83, 83]
      else if c = 255 then [376]
      else [c])"

definition latin1_tables :: unicode_tables where
  "latin1_tables =
     \<lparr> alphabetic = latin1_alphabetic,
       uppercase = (\<lambda>s. concat (map latin1_upper_char s)) \<rparr>"

text \<open>\<open>str.strip()\<close>: white space is removed at both ends.\<close>

definition unicode_strip :: "unicode \<Rightarrow> unicode" where
  "unicode_strip s = rev (dropWhile unicode_isspace (rev (dropWhile unicode_isspace s)))"

text \<open>
  \<open>str.split(sep)\<close> with a one-character separator: empty pieces are kept, and the
  empty string splits into one empty piece.
\<close>

fun split_on :: "'a \<Rightarrow> 'a list \<Rightarrow> 'a list list" where
  "split_on sep [] = [[]]"
| "split_on sep (c # cs) =
     (if c = sep then [] # split_on sep cs
      else (case split_on sep cs of
              [] \<Rightarrow> [[c]]
            | w # ws \<Rightarrow> (c # w) # ws))"

text \<open>
  \<open>str.split()\<close> without argument: the maximal runs of characters that are not white
  space, in order; \<open>w\<close> is the run being read.
\<close>

fun split_ws_from :: "unicode \<Rightarrow> unicode \<Rightarrow> unicode list" where
  "split_ws_from w [] = (if w = [] then [] else [w])"
| "split_ws_from w (c # cs) =
     (if unicode_isspace c
      then (if w = [] then split_ws_from [] cs else w # split_ws_from [] cs)
      else split_ws_from (w @ [c]) cs)"

definition split_ws :: "unicode \<Rightarrow> unicode list" where
  "split_ws s = split_ws_from [] s"

text \<open>\<open>str.isalpha()\<close>: at least one character, all of them alphabetic.\<close>

definition isalpha :: "unicode_tables \<Rightarrow> unicode \<Rightarrow> bool" where
  "isalpha tables s = (s \<noteq> [] \<and> list_all (alphabetic tables) s)"

definition name_headers :: "unicode list" where
  "name_headers = map codepoints [''RESUME'', ''CV'', ''CURRICULUM VITAE'']"

text \<open>\<open>word.replace('.', '')\<close>.\<close>

definition remove_periods :: "unicode \<Rightarrow> unicode" where
  "remove_periods word = filter (\<lambda>c. c \<noteq> of_char (CHR ''.'')) word"

text \<open>The loop of \<open>ResumeParser.extract_name\<close> over the lines it is given.\<close>

fun scan_name_lines :: "unicode_tables \<Rightarrow> unicode list \<Rightarrow> unicode option" where
  "scan_name_lines tables [] = None"
| "scan_name_lines tables (raw # rest) =
     (let line = unicode_strip raw
      in if line = [] \<or> uppercase tables line \<in> set name_headers
         then scan_name_lines tables rest
         else (let words = split_ws line
               in if 1 \<le> length words \<and> length words \<le> 4
                  then (if list_all (\<lambda>word. isalpha tables (remove_periods word)) words
                        then Some line
                        else scan_name_lines tables rest)
                  else scan_name_lines tables rest))"

text \<open>\<open>ResumeParser.extract_name\<close>; \<open>lines[:5]\<close> is \<open>take 5 lines\<close>.\<close>

definition extract_name :: "unicode_tables \<Rightarrow> unicode \<Rightarrow> unicode option" where
  "extract_name tables text =
     scan_name_lines tables (take 5 (split_on (of_char newline) (unicode_strip text)))"

text \<open>
  The test of the loop on one stripped line: not empty, not a header, one to four
  words, each alphabetic once all its periods are removed.
\<close>

definition name_line :: "unicode_tables \<Rightarrow> unicode \<Rightarrow> bool" where
  "name_line tables line =
     (line \<noteq> [] \<and> uppercase tables line \<notin> set name_headers
      \<and> 1 \<le> length (split_ws line) \<and> length (split_ws line) \<le> 4
      \<and> list_all (\<lambda>word. isalpha tables (remove_periods word)) (split_ws line))"

text \<open>
  The specification's wording of the name extraction, for comparison with the code:
  the window is the first five lines that are not empty, and a token is tested with
  its trailing periods removed.
\<close>

definition remove_trailing_periods :: "unicode \<Rightarrow> unicode" where
  "remove_trailing_periods word =
     rev (dropWhile (\<lambda>c. c = of_char (CHR ''.'')) (rev word))"

definition name_line_spec :: "unicode_tables \<Rightarrow> unicode \<Rightarrow> bool" where
  "name_line_spec tables line =
     (uppercase tables line \<notin> set name_headers
      \<and> 1 \<le> length (split_ws line) \<and> length (split_ws line) \<le> 4
      \<and> list_all (\<lambda>word. isalpha tables (remove_trailing_periods word)) (split_ws line))"

definition extract_name_spec :: "unicode_tables \<Rightarrow> unicode \<Rightarrow> unicode option" where
  "extract_name_spec tables text =
     find (name_line_spec tables)
       (take 5 (filter (\<lambda>line. line \<noteq> [])
                  (map unicode_strip (split_on (of_char newline) text))))"

text \<open>Sample texts: a header, four empty lines and a name; a name with initials.\<close>

definition sample_name_after_blank_lines :: unicode where
  "sample_name_after_blank_lines =
     codepoints (join [newline] [''RESUME'', [], [], [], [], ''John Doe''])"

definition sample_name_with_initials :: unicode where
  "sample_name_with_initials = codepoints ''J.R.R. Tolkien''"

subsection \<open>Education\<close>

text \<open>
  The regular expressions of \<open>extract_education\<close> are run by Python's \<open>re\<close> module,
  which is not part of the repository. Its results enter as a record of functions:
  \<^item> \<open>search_edu_section text\<close> is group 1 of the first match of the section pattern in
    \<open>text\<close> (case-insensitive, dot matches newline), or \<open>None\<close>;
  \<^item> \<open>finditer_degree p edu_text\<close> lists the matches of the degree pattern \<open>p\<close> in
    \<open>edu_text\<close> from left to right, each as its \<open>(start, end)\<close>;
  \<^item> \<open>search_year\<close>, \<open>search_score\<close> give group 0 and \<open>search_institution\<close> group 1 of
    the first match of the year, score and institution patterns in a context.
\<close>

datatype degree_pattern =
    BTech_pattern
  | Bachelor_of_Technology_pattern
  | MTech_pattern
  | Master_of_Technology_pattern
  | BE_pattern
  | Bachelor_of_Engineering_pattern
  | BCA_pattern
  | MCA_pattern
  | MBA_pattern
  | Twelfth_pattern
  | Tenth_pattern

record regex_results =
  search_edu_section :: "string \<Rightarrow> string option"
  finditer_degree :: "degree_pattern \<Rightarrow> string \<Rightarrow> (nat \<times> nat) list"
  search_year :: "string \<Rightarrow> string option"
  search_score :: "string \<Rightarrow> string option"
  search_institution :: "string \<Rightarrow> string option"

text \<open>The list \<open>degree_patterns\<close>: each pattern with its canonical degree name.\<close>

definition degree_patterns :: "(degree_pattern \<times> string) list" where
  "degree_patterns =
     [(BTech_pattern, ''B.Tech''),
      (Bachelor_of_Technology_pattern, ''B.Tech''),
      (MTech_pattern, ''M.Tech''),
      (Master_of_Technology_pattern, ''M.Tech''),
      (BE_pattern, ''B.E.''),
      (Bachelor_of_Engineering_pattern, ''B.E.''),
      (BCA_pattern, ''BCA''),
      (MCA_pattern, ''MCA''),
      (MBA_pattern, ''MBA''),
      (Twelfth_pattern, ''12th''),
      (Tenth_pattern, ''10th'')]"

record education_entry =
  degree :: string
  institution :: "string option"
  year :: "string option"
  score :: "string option"

text \<open>\<open>s[a:b]\<close> for \<open>0 \<le> a \<le> b\<close>.\<close>

definition slice :: "nat \<Rightarrow> nat \<Rightarrow> string \<Rightarrow> string" where
  "slice a b s = take (b - a) (drop a s)"

text \<open>
  The dictionary appended for an accepted match: the matched text, and what the three
  searches find in the context of 50 characters before and 150 after the match.
\<close>

definition make_entry :: "regex_results \<Rightarrow> string \<Rightarrow> nat \<times> nat \<Rightarrow> education_entry" where
  "make_entry re edu_text m =
     (let degree_full = strip (slice (fst m) (snd m) edu_text);
          context_start = max 0 (fst m - 50);
          context_end = min (length edu_text) (snd m + 150);
          ctx = slice context_start context_end edu_text
      in \<lparr> degree = degree_full,
            institution = map_option strip (search_institution re ctx),
            year = search_year re ctx,
            score = search_score re ctx \<rparr>)"

text \<open>
  The inner loop over the matches of one pattern, on the pair of \<open>seen_degrees\<close> and
  \<open>education\<close>. Each entry is kept together with the degree name under which the loop
  appended it; the dictionary of the source holds the four fields only.
\<close>

fun match_loop ::
  "regex_results \<Rightarrow> string \<Rightarrow> string \<Rightarrow> (nat \<times> nat) list
     \<Rightarrow> string set \<times> (string \<times> education_entry) list
     \<Rightarrow> string set \<times> (string \<times> education_entry) list" where
  "match_loop re edu_text degree_name [] (seen_degrees, education) = (seen_degrees, education)"
| "match_loop re edu_text degree_name (m # ms) (seen_degrees, education) =
     (if degree_name \<in> seen_degrees
      then match_loop re edu_text degree_name ms (seen_degrees, education)
      else match_loop re edu_text degree_name ms
             (insert degree_name seen_degrees,
              education @ [(degree_name, make_entry re edu_text m)]))"

text \<open>The outer loop over the degree patterns.\<close>

fun pattern_loop ::
  "regex_results \<Rightarrow> string \<Rightarrow> (degree_pattern \<times> string) list
     \<Rightarrow> string set \<times> (string \<times> education_entry) list
     \<Rightarrow> string set \<times> (string \<times> education_entry) list" where
  "pattern_loop re edu_text [] state = state"
| "pattern_loop re edu_text ((pattern, degree_name) # rest) state =
     pattern_loop re edu_text rest
       (match_loop re edu_text degree_name (finditer_degree re pattern edu_text) state)"

definition extract_education_labelled ::
  "regex_results \<Rightarrow> string \<Rightarrow> (string \<times> education_entry) list" where
  "extract_education_labelled re text =
     (case search_edu_section re text of
        None \<Rightarrow> []
      | Some edu_text \<Rightarrow> snd (pattern_loop re edu_text degree_patterns ({}, [])))"

text \<open>\<open>ResumeParser.extract_education\<close>.\<close>

definition extract_education :: "regex_results \<Rightarrow> string \<Rightarrow> education_entry list" where
  "extract_education re text = map snd (extract_education_labelled re text)"

text \<open>
  The first match, in the order of the loops, among the patterns of a degree name:
  patterns in the order of the list, matches of one pattern from left to right.
\<close>

definition first_match ::
  "regex_results \<Rightarrow> string \<Rightarrow> (degree_pattern \<times> string) list \<Rightarrow> string
     \<Rightarrow> (nat \<times> nat) option" where
  "first_match re edu_text patterns degree_name =
     (case concat (map (\<lambda>(pattern, name).
                          if name = degree_name then finditer_degree re pattern edu_text else [])
                       patterns) of
        [] \<Rightarrow> None
      | m # ms \<Rightarrow> Some m)"

text \<open>
  A sample run of the education extraction: the text and what \<open>re\<close> returns on it.
  Group 1 of the section pattern is the line after the header; the B.Tech pattern
  matches twice (the pattern takes the white space after the word), the 12th pattern
  once, the other nine patterns nowhere; the year pattern finds 2023 in the context,
  the score and institution patterns nothing.
\<close>

definition sample_edu_text :: string where
  "sample_edu_text = ''B.Tech 12th B.Tech 2023''"

definition sample_resume_text :: string where
  "sample_resume_text = ''EDUCATION'' @ [newline] @ sample_edu_text"

definition sample_regex_results :: regex_results where
  "sample_regex_results =
     \<lparr> search_edu_section =
         (\<lambda>text. if text = sample_resume_text then Some sample_edu_text else None),
       finditer_degree =
         (\<lambda>pattern edu_text.
            if edu_text = sample_edu_text
            then (case pattern of
                    BTech_pattern \<Rightarrow> [(0, 7), (12, 19)]
                  | Twelfth_pattern \<Rightarrow> [(7, 11)]
                  | _ \<Rightarrow> [])
            else []),
       search_year = (\<lambda>ctx. if ctx = sample_edu_text then Some ''2023'' else None),
       search_score = (\<lambda>ctx. None),
       search_institution = (\<lambda>ctx. None) \<rparr>"

section \<open>Properties of the skill normalizer\<close>

lemma normalize_loop_set:
  "set (normalize_loop xs seen result) = set result \<union> (set xs - {[]} - seen)"
  by (induction xs arbitrary: seen result) auto

lemma normalize_loop_distinct:
  "distinct result \<Longrightarrow> set result \<subseteq> seen \<Longrightarrow> distinct (normalize_loop xs seen result)"
proof (induction xs arbitrary: seen result)
  case Nil
  then show ?case by simp
next
  case (Cons x xs)
  show ?case
  proof (cases "x \<noteq> [] \<and> x \<notin> seen")
    case True
    with Cons.prems have "distinct (result @ [x])" "set (result @ [x]) \<subseteq> insert x seen"
      by auto
    then have "distinct (normalize_loop xs (insert x seen) (result @ [x]))"
      by (rule Cons.IH)
    with True show ?thesis by simp
  next
    case False
    with Cons.IH [OF Cons.prems] show ?thesis by auto
  qed
qed

lemma set_normalize_skills:
  "set (normalize_skills raw) = normalize_skill ` set raw - {[]}"
  by (simp add: normalize_skills_def normalize_loop_set)

lemma distinct_normalize_skills: "distinct (normalize_skills raw)"
  by (simp add: normalize_skills_def normalize_loop_distinct)


lemma join_Nil_iff: "[] \<notin> set xs \<Longrightarrow> join sep xs = [] \<longleftrightarrow> xs = []"
  by (induction sep xs rule: join.induct) auto

lemma skills_to_text_Nil_iff: "skills_to_text raw = [] \<longleftrightarrow> normalize_skills raw = []"
  unfolding skills_to_text_def
  by (rule join_Nil_iff) (simp add: set_normalize_skills)

text \<open>
  C3. The claim is that normalizing twice gives the same string as normalizing once.
  The code trims white space before it removes the special characters, so a skill
  that starts or ends with a removed character next to a blank keeps that blank:
  \<open>* Python\<close> becomes \<open>python\<close> with a leading blank, and only a second
  normalization gives \<open>python\<close>; the list of \<open>* Python\<close> and \<open>Python\<close> keeps both
  as different skills.
\<close>

theorem normalize_skill_not_idempotent:
  "normalize_skill ''* Python'' = '' python''
   \<and> normalize_skill (normalize_skill ''* Python'') = ''python''
   \<and> normalize_skills [''* Python'', ''Python''] = ['' python'', ''python'']"
  by code_simp

section \<open>Properties of the gap analyzer\<close>

lemma round_half_even_ge: "of_int n \<le> y \<Longrightarrow> n \<le> round_half_even y"
proof -
  assume "of_int n \<le> y"
  then have "n \<le> \<lfloor>y\<rfloor>" by (simp add: le_floor_iff)
  then show ?thesis by (auto simp: round_half_even_def Let_def)
qed

lemma round_half_even_le: "y \<le> of_int n \<Longrightarrow> round_half_even y \<le> n"
proof (cases "y = of_int n")
  case True
  then show ?thesis by (simp add: round_half_even_def)
next
  case False
  assume "y \<le> of_int n"
  with False have "y < of_int n" by simp
  then have "\<lfloor>y\<rfloor> < n" by (simp add: floor_less_iff)
  then show ?thesis by (auto simp: round_half_even_def Let_def)
qed




lemma round2_of_int: "round2 (of_int n) = of_int n"
  by (simp add: round2_def round_half_even_def)

lemma round2_mono_ge: "of_int n \<le> x \<Longrightarrow> of_int n \<le> round2 x"
proof -
  assume "of_int n \<le> x"
  then have "of_int (n * 100) \<le> x * 100" by simp
  then have "n * 100 \<le> round_half_even (x * 100)" by (rule round_half_even_ge)
  then have "real_of_int (n * 100) \<le> real_of_int (round_half_even (x * 100))" by linarith
  then show ?thesis by (simp add: round2_def)
qed

lemma analyze_skill_gap_eq:
  "analyze_skill_gap tfidf A B P =
     Inr \<lparr> matching_required =
             set (normalize_skills A) \<inter> set (normalize_skills B),
           matching_preferred =
             set (normalize_skills A) \<inter> set (normalize_skills (case P of None \<Rightarrow> [] | Some ps \<Rightarrow> ps)),
           missing_required =
             set (normalize_skills B) - set (normalize_skills A),
           missing_preferred =
             set (normalize_skills (case P of None \<Rightarrow> [] | Some ps \<Rightarrow> ps)) - set (normalize_skills A),
           additional_skills =
             set (normalize_skills A) - set (normalize_skills B)
               - set (normalize_skills (case P of None \<Rightarrow> [] | Some ps \<Rightarrow> ps)),
           similarity_score = calculate_similarity tfidf A B,
           job_fit_score =
             round2 (match_ratio A B * 60
                     + match_ratio A (case P of None \<Rightarrow> [] | Some ps \<Rightarrow> ps) * 20
                     + calculate_similarity tfidf A B * 20),
           required_match_percentage = match_ratio A B * 100,
           total_skills_matched =
             card (set (normalize_skills A) \<inter> set (normalize_skills B))
             + card (set (normalize_skills A) \<inter> set (normalize_skills (case P of None \<Rightarrow> [] | Some ps \<Rightarrow> ps))) \<rparr>"
  by (simp add: analyze_skill_gap_def calculate_job_fit_score_def truediv_def
        match_ratio_def Let_def)


lemma match_ratio_self: "normalize_skills L \<noteq> [] \<Longrightarrow> match_ratio L L = 1"
  by (simp add: match_ratio_def distinct_card distinct_normalize_skills)

lemma match_ratio_empty: "normalize_skills B = [] \<Longrightarrow> match_ratio A B = 0"
  by (simp add: match_ratio_def)


lemma calculate_similarity_nonneg:
  assumes "\<And>s. tfidf (skills_to_text A) (skills_to_text B) = Some s \<Longrightarrow> 0 \<le> s"
  shows "0 \<le> calculate_similarity tfidf A B"
  using assms by (auto simp: calculate_similarity_def Let_def split: option.splits)

text \<open>
  C1. For all resume skills \<open>A\<close> and required skills \<open>B\<close> the analysis returns a
  result in which \<open>matching_required\<close> is the intersection of the normalized skills of
  \<open>A\<close> and of \<open>B\<close>, \<open>missing_required\<close> is the normalized skills of \<open>B\<close> without those
  of \<open>A\<close>, and the two together are the normalized skills of \<open>B\<close>. The normalized
  skills of a list are the normalizations of its elements that are not empty.
\<close>

theorem analyze_skill_gap_set_algebra:
  "\<exists>r. analyze_skill_gap tfidf A B P = Inr r
     \<and> matching_required r = (normalize_skill ` set A - {[]}) \<inter> (normalize_skill ` set B - {[]})
     \<and> missing_required r = (normalize_skill ` set B - {[]}) - (normalize_skill ` set A - {[]})
     \<and> matching_required r \<union> missing_required r = normalize_skill ` set B - {[]}"
  unfolding analyze_skill_gap_eq set_normalize_skills by auto




text \<open>
  C4, as the claim states it, fails for a list that is not empty but whose skills all
  normalize to the empty string: the analysis of \<open>!!!\<close> against itself has no required
  skill left, so the percentage and the fit score are 0.
\<close>

theorem perfect_match_counterexample:
  "analyze_skill_gap (fixed_cosine 1) [''!!!''] [''!!!''] (Some [])
     = Inr \<lparr> matching_required = {}, matching_preferred = {},
             missing_required = {}, missing_preferred = {},
             additional_skills = {},
             similarity_score = 0, job_fit_score = 0,
             required_match_percentage = 0, total_skills_matched = 0 \<rparr>"
  by code_simp

text \<open>
  C4, amended. For every skill list \<open>L\<close> whose normalized list is not empty, analysed
  against itself with no preferred skills (absent or empty), and a vectorizer whose
  similarity for the text of \<open>L\<close> is not negative: nothing required is missing,
  the required match percentage is 100, the fit score is at least 60, and it is
  exactly 80 when the similarity is 1.
\<close>

theorem perfect_match:
  assumes "normalize_skills L \<noteq> []"
    and "P = None \<or> P = Some []"
    and "\<And>s. tfidf (skills_to_text L) (skills_to_text L) = Some s \<Longrightarrow> 0 \<le> s"
  shows "\<exists>r. analyze_skill_gap tfidf L L P = Inr r
           \<and> missing_required r = {}
           \<and> required_match_percentage r = 100
           \<and> 60 \<le> job_fit_score r
           \<and> (similarity_score r = 1 \<longrightarrow> job_fit_score r = 80)"
proof -
  let ?sim = "calculate_similarity tfidf L L"
  have Q: "(case P of None \<Rightarrow> [] | Some ps \<Rightarrow> ps) = []"
    using assms(2) by auto
  have empty: "match_ratio L [] = 0"
    by (simp add: match_ratio_def normalize_skills_def)
  have self: "match_ratio L L = 1"
    using assms(1) by (rule match_ratio_self)
  have "0 \<le> ?sim"
    using assms(3) by (rule calculate_similarity_nonneg)
  then have "real_of_int 60 \<le> 60 + ?sim * 20" by simp
  then have "real_of_int 60 \<le> round2 (60 + ?sim * 20)" by (rule round2_mono_ge)
  then have low: "60 \<le> round2 (60 + ?sim * 20)" by simp
  have "round2 (real_of_int 80) = real_of_int 80" by (rule round2_of_int)
  then have full: "round2 80 = 80" by simp
  show ?thesis
    unfolding analyze_skill_gap_eq Q using low full by (simp add: empty self)
qed

text \<open>A perfect match of two skills, with similarity 1.\<close>

theorem perfect_match_witness:
  "analyze_skill_gap (fixed_cosine 1) [''Python'', ''SQL''] [''Python'', ''SQL''] None
     = Inr \<lparr> matching_required = {''python'', ''structured query language''},
             matching_preferred = {},
             missing_required = {}, missing_preferred = {},
             additional_skills = {},
             similarity_score = 1, job_fit_score = 80,
             required_match_percentage = 100, total_skills_matched = 2 \<rparr>"
proof -
  have norm: "normalize_skills [''Python'', ''SQL''] \<noteq> []" by code_simp
  have sim: "\<And>s. fixed_cosine 1 (skills_to_text [''Python'', ''SQL''])
                 (skills_to_text [''Python'', ''SQL'']) = Some s \<Longrightarrow> 0 \<le> s"
    by (simp add: fixed_cosine_def)
  have run: "analyze_skill_gap (fixed_cosine 1) [''Python'', ''SQL''] [''Python'', ''SQL''] None
     = Inr \<lparr> matching_required = {''python'', ''structured query language''},
             matching_preferred = {},
             missing_required = {}, missing_preferred = {},
             additional_skills = {},
             similarity_score = 1, job_fit_score = 80,
             required_match_percentage = 100, total_skills_matched = 2 \<rparr>"
    by code_simp
  from perfect_match [of "[''Python'', ''SQL'']" None "fixed_cosine 1", OF norm _ sim] run
  show ?thesis by simp
qed

text \<open>
  C5. The analysis returns a result for every input, never an error. The similarity
  is 0 when one of the two joined texts is empty, which is when the resume skills or
  the required skills normalize to the empty list; the required match percentage is 0
  when the required skills normalize to the empty list; and the similarity is 0 when
  the vectorizer raises.
\<close>

theorem analyze_skill_gap_never_raises:
  "\<exists>r. analyze_skill_gap tfidf A B P = Inr r
     \<and> (skills_to_text A = [] \<or> skills_to_text B = [] \<longrightarrow> similarity_score r = 0)
     \<and> (normalize_skills A = [] \<or> normalize_skills B = [] \<longrightarrow> similarity_score r = 0)
     \<and> (normalize_skills B = [] \<longrightarrow> required_match_percentage r = 0)
     \<and> (tfidf (skills_to_text A) (skills_to_text B) = None \<longrightarrow> similarity_score r = 0)"
  unfolding analyze_skill_gap_eq
  by (auto simp: calculate_similarity_def Let_def match_ratio_empty skills_to_text_Nil_iff)

text \<open>
  A run with no resume skills, a required skill that normalizes to the empty string
  and a vectorizer that raises.
\<close>

theorem analyze_skill_gap_never_raises_witness:
  "analyze_skill_gap failing_cosine [] [''!!!''] None
     = Inr \<lparr> matching_required = {}, matching_preferred = {},
             missing_required = {}, missing_preferred = {},
             additional_skills = {},
             similarity_score = 0, job_fit_score = 0,
             required_match_percentage = 0, total_skills_matched = 0 \<rparr>"
proof -
  have run: "analyze_skill_gap failing_cosine [] [''!!!''] None
     = Inr \<lparr> matching_required = {}, matching_preferred = {},
             missing_required = {}, missing_preferred = {},
             additional_skills = {},
             similarity_score = 0, job_fit_score = 0,
             required_match_percentage = 0, total_skills_matched = 0 \<rparr>"
    by code_simp
  from analyze_skill_gap_never_raises [of failing_cosine "[]" "[''!!!'']" None] run
  show ?thesis by simp
qed


section \<open>Properties of the recommendation generator\<close>

text \<open>
  C7. For all missing skills and every score the recommendations are not empty, the
  first is the headline of the score band (excellent from 80, good from 60 to below
  80, moderate from 40 to below 60, low below 40), and exactly one of the
  recommendations is a headline.
\<close>

theorem generate_recommendations_headline:
  "generate_recommendations missing_req missing_pref fit \<noteq> []
   \<and> hd (generate_recommendations missing_req missing_pref fit)
       = (if 80 \<le> fit then ''[EXCELLENT] You meet most requirements.''
          else if 60 \<le> fit then ''[GOOD] Consider strengthening a few areas.''
          else if 40 \<le> fit then ''[MODERATE] Significant skill gaps to address.''
          else ''[LOW] Major skill development needed.'')
   \<and> length (filter (\<lambda>line. line \<in> set headlines)
               (generate_recommendations missing_req missing_pref fit)) = 1"
  by (simp add: generate_recommendations_def headlines_def Let_def)

section \<open>Properties of the batch ranker\<close>

lemma length_insort_reverse: "length (insort_reverse key x xs) = Suc (length xs)"
  by (induction xs) auto

lemma length_sort_reverse: "length (sort_reverse key xs) = length xs"
  by (induction xs) (auto simp: sort_reverse_def length_insort_reverse)

lemma set_insort_reverse: "set (insort_reverse key x xs) = insert x (set xs)"
  by (induction xs) auto

lemma sorted_insort_reverse:
  "sorted_wrt (\<lambda>a b. key b \<le> key a) xs
     \<Longrightarrow> sorted_wrt (\<lambda>a b. key b \<le> key a) (insort_reverse key x xs)"
  by (induction xs) (auto simp: set_insort_reverse)

lemma sorted_sort_reverse: "sorted_wrt (\<lambda>a b. key b \<le> key a) (sort_reverse key xs)"
  by (induction xs) (auto simp: sort_reverse_def sorted_insort_reverse)

lemma filter_insort_reverse:
  "filter (\<lambda>r. key r = k) (insort_reverse key x xs)
     = (if key x = k then x # filter (\<lambda>r. key r = k) xs else filter (\<lambda>r. key r = k) xs)"
  by (induction xs) auto

lemma filter_sort_reverse:
  "filter (\<lambda>r. key r = k) (sort_reverse key xs) = filter (\<lambda>r. key r = k) xs"
  by (induction xs) (auto simp: sort_reverse_def filter_insort_reverse)

lemma batch_row_of_Inr: "\<exists>row. batch_row_of tfidf resume job_req = Inr row"
  by (simp add: batch_row_of_def analyze_skill_gap_eq)

lemma batch_loop_rows:
  "\<exists>new. batch_loop tfidf resume jobs rows = Inr (rows @ new)
     \<and> list_all2 (\<lambda>job row. batch_row_of tfidf resume job = Inr row) jobs new"
proof (induction jobs arbitrary: rows)
  case Nil
  then show ?case by simp
next
  case (Cons job_req rest)
  obtain row where row: "batch_row_of tfidf resume job_req = Inr row"
    using batch_row_of_Inr by blast
  obtain new where new: "batch_loop tfidf resume rest (rows @ [row]) = Inr ((rows @ [row]) @ new)"
    "list_all2 (\<lambda>job row. batch_row_of tfidf resume job = Inr row) rest new"
    using Cons.IH by blast
  show ?case
    using row new by (intro exI [of _ "row # new"]) simp
qed

lemma batch_row_of_title:
  "batch_row_of tfidf resume job = Inr row \<Longrightarrow> row_job_title row = job_title job"
  by (auto simp: batch_row_of_def analyze_skill_gap_eq)

lemma batch_rows_titles:
  "list_all2 (\<lambda>job row. batch_row_of tfidf resume job = Inr row) jobs rows
     \<Longrightarrow> map row_job_title rows = map job_title jobs"
  by (induction jobs rows rule: list_all2_induct) (auto simp: batch_row_of_title)

lemma batch_match_resume_guards:
  "skills resume = []
     \<Longrightarrow> batch_match_resume tfidf resume jobs
           = Inl (HTTPException 400 ''Resume skills cannot be empty'')"
  "skills resume \<noteq> [] \<Longrightarrow> jobs = []
     \<Longrightarrow> batch_match_resume tfidf resume jobs
           = Inl (HTTPException 400 ''Job requirements list cannot be empty'')"
  by (simp_all add: batch_match_resume_def)

text \<open>
  C6, as the claim states it, fails for an empty list of resume skills (and likewise
  for an empty list of jobs): the endpoint raises the error 400 of its guard and
  there is no row, though a job was given.
\<close>

theorem batch_match_resume_guard_counterexample:
  "batch_match_resume (fixed_cosine 1)
     \<lparr> skills = [], experience_years = None, education_level = None, job_titles = None \<rparr>
     [\<lparr> job_title = ''Backend'', required_skills = [''python''], preferred_skills = None,
        min_experience = None, education_required = None \<rparr>]
   = Inl (HTTPException 400 ''Resume skills cannot be empty'')"
  by (simp add: batch_match_resume_def)

text \<open>
  C6, amended. For every resume skill list and sequence of job requirements that are
  both not empty, the endpoint returns a response. Its rows are the rows of the
  jobs, one for each job with the job's title: there are as many as jobs, they are
  sorted by descending fit score, and for every score the rows with that score are
  the rows of the jobs with that score in the order of the input.
\<close>

theorem batch_match_resume_ranking:
  assumes "skills resume \<noteq> []" and "jobs \<noteq> []"
  shows "\<exists>rows resp. batch_match_resume tfidf resume jobs = Inr resp
           \<and> list_all2 (\<lambda>job row. batch_row_of tfidf (skills resume) job = Inr row) jobs rows
           \<and> map row_job_title rows = map job_title jobs
           \<and> length (results resp) = length jobs
           \<and> total_jobs_analyzed resp = length jobs
           \<and> sorted_wrt (\<lambda>a b. fit_score b \<le> fit_score a) (results resp)
           \<and> (\<forall>k. filter (\<lambda>r. fit_score r = k) (results resp)
                    = filter (\<lambda>r. fit_score r = k) rows)"
proof -
  obtain rows where loop: "batch_loop tfidf (skills resume) jobs [] = Inr rows"
    and rows: "list_all2 (\<lambda>job row. batch_row_of tfidf (skills resume) job = Inr row) jobs rows"
    using batch_loop_rows [of tfidf "skills resume" jobs "[]"] by auto
  have len: "length rows = length jobs"
    using rows by (simp add: list_all2_lengthD)
  have titles: "map row_job_title rows = map job_title jobs"
    using rows by (rule batch_rows_titles)
  show ?thesis
    using assms loop rows len titles
    by (intro exI [of _ rows])
       (simp add: batch_match_resume_def Let_def length_sort_reverse sorted_sort_reverse
          filter_sort_reverse)
qed

text \<open>Three jobs, the second and third with the same fit score.\<close>

theorem batch_match_resume_ranking_witness:
  "batch_match_resume (fixed_cosine 1)
     \<lparr> skills = [''Python''], experience_years = None, education_level = None,
       job_titles = None \<rparr>
     [\<lparr> job_title = ''Analyst'', required_skills = [''sql''], preferred_skills = None,
        min_experience = None, education_required = None \<rparr>,
      \<lparr> job_title = ''Backend'', required_skills = [''python''], preferred_skills = None,
        min_experience = None, education_required = None \<rparr>,
      \<lparr> job_title = ''Scripting'', required_skills = [''py''], preferred_skills = Some [],
        min_experience = None, education_required = None \<rparr>]
   = Inr \<lparr> status = ''success'', total_jobs_analyzed = 3,
           results =
             [\<lparr> row_job_title = ''Backend'', fit_score = 80, row_similarity_score = 1,
                row_required_match_percentage = 100, skills_matched = 1,
                missing_required_count = 0 \<rparr>,
              \<lparr> row_job_title = ''Scripting'', fit_score = 80, row_similarity_score = 1,
                row_required_match_percentage = 100, skills_matched = 1,
                missing_required_count = 0 \<rparr>,
              \<lparr> row_job_title = ''Analyst'', fit_score = 20, row_similarity_score = 1,
                row_required_match_percentage = 0, skills_matched = 0,
                missing_required_count = 1 \<rparr>] \<rparr>"
  (is "batch_match_resume ?tfidf ?resume ?jobs = ?resp")
proof -
  have resume: "skills ?resume \<noteq> []" by simp
  have jobs: "?jobs \<noteq> []" by simp
  have run: "batch_match_resume ?tfidf ?resume ?jobs = ?resp"
    by code_simp
  from batch_match_resume_ranking [of ?resume ?jobs ?tfidf, OF resume jobs] run
  show ?thesis by simp
qed

section \<open>Properties of the text extractor\<close>

lemma scan_name_lines_find:
  "scan_name_lines tables ls = find (name_line tables) (map unicode_strip ls)"
  by (induction ls) (auto simp: name_line_def Let_def)

lemmas name_eval =
  extract_name_def extract_name_spec_def name_line_spec_def
  sample_name_after_blank_lines_def sample_name_with_initials_def
  codepoints_def newline_def unicode_strip_def unicode_isspace_def split_ws_def
  isalpha_def remove_periods_def remove_trailing_periods_def name_headers_def
  latin1_tables_def latin1_alphabetic_def latin1_upper_char_def Let_def

text \<open>
  C8, as the claim states it, fails in two ways. The window is the first five lines
  of the trimmed text, empty lines included: a name on the sixth line after a header
  and four empty lines is not found, though it is among the first five lines that are
  not empty. And all periods of a token are removed, not only the trailing ones:
  \<open>J.R.R.\<close> counts as alphabetic.
\<close>

theorem extract_name_spec_counterexample:
  "extract_name latin1_tables sample_name_after_blank_lines = None
   \<and> extract_name_spec latin1_tables sample_name_after_blank_lines
       = Some (codepoints ''John Doe'')
   \<and> extract_name latin1_tables sample_name_with_initials
       = Some (codepoints ''J.R.R. Tolkien'')
   \<and> extract_name_spec latin1_tables sample_name_with_initials = None"
  by (simp add: name_eval)

text \<open>
  C8, amended. For every text, and whatever the runtime's tables of alphabetic
  characters and upper case are: the name is the first among the first five lines of
  the trimmed text, each trimmed, that is not empty, is not one of the three headers
  in any case, and has one to four words that are alphabetic once all their periods
  are removed; there is no name when none of these five lines is such a line.
\<close>

theorem extract_name_first_name_line:
  "extract_name tables text
     = find (name_line tables)
         (map unicode_strip (take 5 (split_on (of_char newline) (unicode_strip text))))"
proof -
  have "extract_name tables text
          = scan_name_lines tables (take 5 (split_on (of_char newline) (unicode_strip text)))"
    by (simp add: extract_name_def)
  also have "\<dots> = find (name_line tables)
         (map unicode_strip (take 5 (split_on (of_char newline) (unicode_strip text))))"
    by (rule scan_name_lines_find)
  finally show ?thesis .
qed

text \<open>
  A name with letters outside ASCII, and one whose words are separated by a no-break
  space (code point 160).
\<close>

lemma extract_name_latin1_examples:
  "extract_name latin1_tables
       (codepoints ''Jos'' @ [233] @ codepoints '' Garc'' @ [237] @ codepoints ''a'')
     = Some (codepoints ''Jos'' @ [233] @ codepoints '' Garc'' @ [237] @ codepoints ''a'')"
  "extract_name latin1_tables (codepoints ''John'' @ [160] @ codepoints ''Doe'')
     = Some (codepoints ''John'' @ [160] @ codepoints ''Doe'')"
  by (simp_all add: name_eval)

lemma match_loop_closed:
  "match_loop re t name ms (seen, ed)
     = (if ms = [] \<or> name \<in> seen then (seen, ed)
        else (insert name seen, ed @ [(name, make_entry re t (hd ms))]))"
proof (induction ms arbitrary: seen ed)
  case Nil
  show ?case by simp
next
  case (Cons m ms)
  show ?case by (simp add: Cons.IH)
qed

lemma first_match_Cons:
  "first_match re t ((pattern, name) # rest) l
     = (if name = l
        then (case finditer_degree re pattern t of
                [] \<Rightarrow> first_match re t rest l
              | m # ms \<Rightarrow> Some m)
        else first_match re t rest l)"
  by (simp add: first_match_def split: list.splits)

lemma first_match_Nil: "first_match re t [] l = None"
  by (simp add: first_match_def)

lemma pattern_loop_distinct:
  "seen = set (map fst ed) \<Longrightarrow> distinct (map fst ed)
     \<Longrightarrow> distinct (map fst (snd (pattern_loop re t ps (seen, ed))))"
proof (induction ps arbitrary: seen ed)
  case Nil
  then show ?case by simp
next
  case (Cons p ps)
  obtain pattern name where p: "p = (pattern, name)" by (cases p)
  show ?case
  proof (cases "finditer_degree re pattern t = [] \<or> name \<in> seen")
    case True
    then have "match_loop re t name (finditer_degree re pattern t) (seen, ed) = (seen, ed)"
      by (simp add: match_loop_closed)
    with Cons.IH [OF Cons.prems] show ?thesis by (simp add: p)
  next
    case False
    let ?ed = "ed @ [(name, make_entry re t (hd (finditer_degree re pattern t)))]"
    from False have step: "match_loop re t name (finditer_degree re pattern t) (seen, ed)
                  = (insert name seen, ?ed)"
      by (simp add: match_loop_closed)
    have "insert name seen = set (map fst ?ed)" "distinct (map fst ?ed)"
      using Cons.prems False by auto
    then have "distinct (map fst (snd (pattern_loop re t ps (insert name seen, ?ed))))"
      by (rule Cons.IH)
    then show ?thesis by (simp add: p step)
  qed
qed

lemma pattern_loop_names:
  "set (map fst (snd (pattern_loop re t ps (seen, ed)))) \<subseteq> set (map fst ed) \<union> set (map snd ps)"
proof (induction ps arbitrary: seen ed)
  case Nil
  then show ?case by simp
next
  case (Cons p ps)
  obtain pattern name where p: "p = (pattern, name)" by (cases p)
  show ?case
  proof (cases "finditer_degree re pattern t = [] \<or> name \<in> seen")
    case True
    then have "match_loop re t name (finditer_degree re pattern t) (seen, ed) = (seen, ed)"
      by (simp add: match_loop_closed)
    with Cons.IH [of seen ed] show ?thesis by (auto simp: p)
  next
    case False
    let ?ed = "ed @ [(name, make_entry re t (hd (finditer_degree re pattern t)))]"
    from False have step: "match_loop re t name (finditer_degree re pattern t) (seen, ed)
                  = (insert name seen, ?ed)"
      by (simp add: match_loop_closed)
    from Cons.IH [of "insert name seen" ?ed] show ?thesis
      by (auto simp: p step)
  qed
qed

lemma pattern_loop_map_of:
  "seen = set (map fst ed)
     \<Longrightarrow> map_of (snd (pattern_loop re t ps (seen, ed))) l
          = (case map_of ed l of
               Some e \<Rightarrow> Some e
             | None \<Rightarrow> map_option (make_entry re t) (first_match re t ps l))"
proof (induction ps arbitrary: seen ed)
  case Nil
  then show ?case by (simp add: first_match_Nil split: option.splits)
next
  case (Cons p ps)
  obtain pattern name where p: "p = (pattern, name)" by (cases p)
  have seen: "name \<in> seen \<longleftrightarrow> map_of ed name \<noteq> None"
    using Cons.prems by (simp add: map_of_eq_None_iff)
  show ?case
  proof (cases "finditer_degree re pattern t = [] \<or> name \<in> seen")
    case True
    then have step: "match_loop re t name (finditer_degree re pattern t) (seen, ed) = (seen, ed)"
      by (simp add: match_loop_closed)
    have fm: "first_match re t (p # ps) l = first_match re t ps l" if "map_of ed l = None"
      using True that seen by (auto simp: p first_match_Cons split: list.splits)
    have "map_of (snd (pattern_loop re t (p # ps) (seen, ed))) l
            = map_of (snd (pattern_loop re t ps (seen, ed))) l"
      by (simp add: p step)
    also have "\<dots> = (case map_of ed l of
                        Some e \<Rightarrow> Some e
                      | None \<Rightarrow> map_option (make_entry re t) (first_match re t ps l))"
      using Cons.prems by (rule Cons.IH)
    also have "\<dots> = (case map_of ed l of
                        Some e \<Rightarrow> Some e
                      | None \<Rightarrow> map_option (make_entry re t) (first_match re t (p # ps) l))"
      using fm by (cases "map_of ed l") simp_all
    finally show ?thesis .
  next
    case False
    then obtain m ms where ms: "finditer_degree re pattern t = m # ms"
      and fresh: "name \<notin> seen"
      by (cases "finditer_degree re pattern t") auto
    let ?ed = "ed @ [(name, make_entry re t m)]"
    have step: "match_loop re t name (finditer_degree re pattern t) (seen, ed)
                  = (insert name seen, ?ed)"
      using fresh by (simp add: match_loop_closed ms)
    have inv: "insert name seen = set (map fst ?ed)"
      using Cons.prems by auto
    have none: "map_of ed name = None"
      using fresh seen by simp
    have look: "map_of ?ed l
                  = (case map_of ed l of
                       Some e \<Rightarrow> Some e
                     | None \<Rightarrow> if l = name then Some (make_entry re t m) else None)"
      by (simp add: map_add_def split: option.splits)
    have fm: "first_match re t (p # ps) l
                = (if l = name then Some m else first_match re t ps l)"
      by (auto simp: p first_match_Cons ms)
    have "map_of (snd (pattern_loop re t (p # ps) (seen, ed))) l
            = map_of (snd (pattern_loop re t ps (insert name seen, ?ed))) l"
      by (simp add: p step)
    also have "\<dots> = (case map_of ?ed l of
                        Some e \<Rightarrow> Some e
                      | None \<Rightarrow> map_option (make_entry re t) (first_match re t ps l))"
      using inv by (rule Cons.IH)
    also have "\<dots> = (case map_of ed l of
                        Some e \<Rightarrow> Some e
                      | None \<Rightarrow> map_option (make_entry re t) (first_match re t (p # ps) l))"
      unfolding look fm using none by (cases "map_of ed l") auto
    finally show ?thesis .
  qed
qed

lemma set_snd_degree_patterns:
  "set (map snd degree_patterns)
     = {''B.Tech'', ''M.Tech'', ''B.E.'', ''BCA'', ''MCA'', ''MBA'', ''12th'', ''10th''}"
  by (auto simp: degree_patterns_def)

text \<open>
  C9. In every extraction the entries come under pairwise different degree names, all
  among the eight canonical ones, so there are at most eight entries and at most one
  for each name. Without an education section there is no entry; with one, the entry
  of a degree name is built from the first match among the patterns of that name, and
  a name has an entry exactly when one of its patterns matches.
\<close>

theorem extract_education_one_entry_per_degree:
  "distinct (map fst (extract_education_labelled re text))
   \<and> set (map fst (extract_education_labelled re text))
       \<subseteq> {''B.Tech'', ''M.Tech'', ''B.E.'', ''BCA'', ''MCA'', ''MBA'', ''12th'', ''10th''}
   \<and> extract_education re text = map snd (extract_education_labelled re text)
   \<and> length (extract_education re text) \<le> 8
   \<and> (case search_edu_section re text of
         None \<Rightarrow> extract_education re text = []
       | Some edu_text \<Rightarrow>
           (\<forall>name. map_of (extract_education_labelled re text) name
                     = map_option (make_entry re edu_text)
                         (first_match re edu_text degree_patterns name)))"
proof (cases "search_edu_section re text")
  case None
  then show ?thesis by (simp add: extract_education_def extract_education_labelled_def)
next
  case (Some edu_text)
  let ?out = "snd (pattern_loop re edu_text degree_patterns ({}, []))"
  have out: "extract_education_labelled re text = ?out"
    by (simp add: extract_education_labelled_def Some)
  have dist: "distinct (map fst ?out)"
    by (rule pattern_loop_distinct) simp_all
  have names: "set (map fst ?out) \<subseteq> set (map snd degree_patterns)"
    using pattern_loop_names [of re edu_text degree_patterns "{}" "[]"] by simp
  have first: "map_of ?out l
            = map_option (make_entry re edu_text) (first_match re edu_text degree_patterns l)"
    for l
    using pattern_loop_map_of [of "{}" "[]" re edu_text degree_patterns l] by simp
  have "length (map fst ?out) = card (set (map fst ?out))"
    using dist by (rule distinct_card [symmetric])
  also have "\<dots> \<le> card (set (map snd degree_patterns))"
    using names by (intro card_mono) auto
  also have "\<dots> \<le> 8"
    unfolding set_snd_degree_patterns by (simp add: card_insert_if)
  finally have len: "length ?out \<le> 8" by simp
  have labels: "set (map fst ?out)
      \<subseteq> {''B.Tech'', ''M.Tech'', ''B.E.'', ''BCA'', ''MCA'', ''MBA'', ''12th'', ''10th''}"
    using names unfolding set_snd_degree_patterns .
  show ?thesis
    unfolding extract_education_def out
    using dist labels len first by (simp add: Some)
qed

text \<open>
  The sample text has two matches of B.Tech and one of 12th: one entry each.
\<close>

theorem extract_education_one_entry_per_degree_witness:
  "extract_education_labelled sample_regex_results sample_resume_text
     = [(''B.Tech'', \<lparr> degree = ''B.Tech'', institution = None, year = Some ''2023'',
                        score = None \<rparr>),
        (''12th'', \<lparr> degree = ''12th'', institution = None, year = Some ''2023'',
                      score = None \<rparr>)]"
proof -
  have run: "extract_education_labelled sample_regex_results sample_resume_text
     = [(''B.Tech'', \<lparr> degree = ''B.Tech'', institution = None, year = Some ''2023'',
                        score = None \<rparr>),
        (''12th'', \<lparr> degree = ''12th'', institution = None, year = Some ''2023'',
                      score = None \<rparr>)]"
    by code_simp
  from extract_education_one_entry_per_degree [of sample_regex_results sample_resume_text] run
  show ?thesis by simp
qed

end
